theory Spec2Isabelle
  imports Complex_Main
begin

section \<open>Values of the JavaScript runtime\<close>

text \<open>
  A JavaScript number as far as the stepper reads it: a finite double is represented by
  the real number it denotes (only its comparison with zero is ever taken, and the sign
  of a double is the sign of that real; negative zero is \<open>Finite 0\<close>), next to the
  three non-finite values.
\<close>

datatype js_number = Finite real | NaN | PosInfinity | NegInfinity

text \<open>The comparison \<^verbatim>\<open>x > 0\<close>: false for \<^verbatim>\<open>NaN\<close>.\<close>

fun gt_zero :: "js_number \<Rightarrow> bool" where
  "gt_zero (Finite x) = (0 < x)"
| "gt_zero NaN = False"
| "gt_zero PosInfinity = True"
| "gt_zero NegInfinity = False"

section \<open>The milestone stepper: \<^verbatim>\<open>src/pages/landing/landing.jsx\<close>\<close>

definition milestones :: "string list" where
  "milestones =
    [''Hit Radiant'',
     ''Amateur Team'',
     ''Open Qualifiers'',
     ''Challengers League (Tier 2)'',
     ''VCT Partner League (Tier 1)'',
     ''International Events (Masters/Champions)'']"

definition SCROLL_THROTTLE_MS :: int where
  "SCROLL_THROTTLE_MS = 250"

text \<open>
  The component state the handler touches: the \<^verbatim>\<open>activeIdx\<close> and
  \<^verbatim>\<open>canStart\<close> state cells and the \<^verbatim>\<open>lastScroll\<close> ref (milliseconds,
  initially 0).
\<close>

record landing =
  activeIdx :: int
  lastScroll :: int
  canStart :: bool

text \<open>
  What \<^verbatim>\<open>handleWheel\<close> does to the page and to the event, in program order:
  \<^verbatim>\<open>window.scrollTo({top: 0, left: 0, behavior: 'auto'})\<close>,
  \<^verbatim>\<open>e.preventDefault()\<close> and
  \<^verbatim>\<open>document.body.style.overflow = 'hidden'\<close>.
\<close>

datatype page_effect = ScrollToTop | PreventDefault | BodyOverflowHidden

text \<open>The updater passed to \<^verbatim>\<open>setActiveIdx\<close>, closed over \<^verbatim>\<open>e.deltaY\<close>.\<close>

definition nextIdx :: "js_number \<Rightarrow> int \<Rightarrow> int" where
  "nextIdx deltaY idx =
    (if gt_zero deltaY then
       (if idx < int (length milestones) - 1 then idx + 1 else idx)
     else
       (if idx > 0 then idx - 1 else idx))"

text \<open>
  \<^verbatim>\<open>handleWheel\<close>, given the reading of \<^verbatim>\<open>Date.now()\<close> and the event's
  \<^verbatim>\<open>deltaY\<close>. The throttle test returns before anything else is done.
\<close>

definition handleWheel :: "int \<Rightarrow> js_number \<Rightarrow> landing \<Rightarrow> landing \<times> page_effect list" where
  "handleWheel now deltaY s =
    (if now - lastScroll s < SCROLL_THROTTLE_MS then (s, [])
     else
       (s\<lparr>lastScroll := now, activeIdx := nextIdx deltaY (activeIdx s)\<rparr>,
        [ScrollToTop, PreventDefault, BodyOverflowHidden]))"

text \<open>
  The second \<^verbatim>\<open>useEffect\<close>: \<^verbatim>\<open>setCanStart(activeIdx === milestones.length - 1)\<close>.
  React runs it after the first render and after every render in which
  \<^verbatim>\<open>activeIdx\<close> differs from the previous one.
\<close>

definition canStartEffect :: "landing \<Rightarrow> landing" where
  "canStartEffect s = s\<lparr>canStart := (activeIdx s = int (length milestones) - 1)\<rparr>"

definition mounted :: landing where
  "mounted = canStartEffect \<lparr>activeIdx = 0, lastScroll = 0, canStart = False\<rparr>"

text \<open>
  A wheel event is the pair of the clock reading and \<^verbatim>\<open>deltaY\<close>. It leads to two
  renders. The first commits what the handler wrote: \<^verbatim>\<open>activeIdx\<close> is new and
  \<^verbatim>\<open>canStart\<close>, which the handler never writes, is still the old one.
\<close>

definition committed :: "landing \<Rightarrow> int \<times> js_number \<Rightarrow> landing" where
  "committed s ev = fst (handleWheel (fst ev) (snd ev) s)"

text \<open>
  The second render follows the effect, which runs after the first when its dependency
  changed. \<open>wheel\<close> is the event through to that settled state.
\<close>

definition wheel :: "landing \<Rightarrow> int \<times> js_number \<Rightarrow> landing" where
  "wheel s ev =
    (let s' = committed s ev
     in if activeIdx s' \<noteq> activeIdx s then canStartEffect s' else s')"

definition wheels :: "(int \<times> js_number) list \<Rightarrow> landing" where
  "wheels evs = foldl wheel mounted evs"

text \<open>
  Every state the component is rendered in over a sequence of events, in order: the state
  before each event, the state its handler commits, and from there on those of the
  settled state.
\<close>

fun renders :: "landing \<Rightarrow> (int \<times> js_number) list \<Rightarrow> landing list" where
  "renders s [] = [s]"
| "renders s (ev # evs) = s # committed s ev # renders (wheel s ev) evs"

section \<open>The intake form: \<^verbatim>\<open>VCTCareerFrontend/src/components/landing/modal.jsx\<close>\<close>

subsection \<open>Values\<close>

text \<open>
  A value produced by \<^verbatim>\<open>res.json()\<close>. A number is represented by the real its double
  denotes. \<open>JNull\<close> is also the initial \<^verbatim>\<open>null\<close> of the \<^verbatim>\<open>apiResult\<close> cell.
\<close>

datatype json =
    JNull
  | JBool bool
  | JNum real
  | JStr string
  | JArr "json list"
  | JObj "(string \<times> json) list"

text \<open>JavaScript truthiness, as taken by \<^verbatim>\<open>if (apiResult)\<close> and by \<^verbatim>\<open>&&\<close>.\<close>

fun truthy :: "json \<Rightarrow> bool" where
  "truthy JNull = False"
| "truthy (JBool b) = b"
| "truthy (JNum x) = (x \<noteq> 0)"
| "truthy (JStr s) = (s \<noteq> [])"
| "truthy (JArr xs) = True"
| "truthy (JObj kvs) = True"

text \<open>
  The built-ins \<^verbatim>\<open>Number(...)\<close> and \<^verbatim>\<open>JSON.stringify(...)\<close> are kept symbolic: the
  value is the application itself, so nothing about its argument is lost.
\<close>

datatype numeric = Number string

datatype serialized = JSON_stringify json

definition rankOptions :: "string list" where
  "rankOptions =
    [''Iron'', ''Bronze'', ''Silver'', ''Gold'', ''Platinum'', ''Diamond'',
     ''Ascendant'', ''Immortal'', ''Radiant'']"

definition experienceOptions :: "string list" where
  "experienceOptions = [''Tier 1'', ''Tier 2'', ''Tier 3'', ''None'']"

definition divisionOptions :: "string list" where
  "divisionOptions = [''1'', ''2'', ''3'']"

text \<open>\<^verbatim>\<open>Array.prototype.indexOf\<close>: the first position of the element, or -1.\<close>

fun indexOf_from :: "string list \<Rightarrow> string \<Rightarrow> int \<Rightarrow> int" where
  "indexOf_from [] x i = - 1"
| "indexOf_from (y # ys) x i = (if y = x then i else indexOf_from ys x (i + 1))"

definition indexOf :: "string list \<Rightarrow> string \<Rightarrow> int" where
  "indexOf xs x = indexOf_from xs x 0"

subsection \<open>Component state\<close>

text \<open>The ten \<^verbatim>\<open>useState\<close> cells of \<^verbatim>\<open>LandingModal\<close>.\<close>

record modal =
  age :: string
  rank :: string
  division :: string
  experience :: string
  submitted :: bool
  apiResult :: json
  loading :: bool
  error :: "string option"
  showToast :: bool
  toastMsg :: string

definition initial :: modal where
  "initial =
    \<lparr>age = [], rank = [], division = [], experience = [], submitted = False,
     apiResult = JNull, loading = False, error = None, showToast = False, toastMsg = []\<rparr>"

subsection \<open>Handlers\<close>

text \<open>
  The object literal that \<^verbatim>\<open>handleSubmit\<close> serialises as the request body
  (\<open>None\<close> is \<^verbatim>\<open>null\<close>).
\<close>

record career_body =
  body_age :: numeric
  body_current_rank :: string
  body_past_experience :: string
  body_division :: "string option"

text \<open>
  What the handlers do outside the component state, in program order:
  \<^verbatim>\<open>e.preventDefault()\<close>, \<^verbatim>\<open>console.log\<close>, \<^verbatim>\<open>fetch(url, {method, headers, body})\<close>,
  \<^verbatim>\<open>localStorage.setItem(key, value)\<close> and the assignment to
  \<^verbatim>\<open>window.location.href\<close>.
\<close>

datatype effect =
    SubmitPreventDefault
  | ConsoleLog string
  | Fetch string string "(string \<times> string) list" career_body
  | SetItem string serialized
  | Navigate string

text \<open>
  \<^verbatim>\<open>handleToastConfirm\<close>. The write and the redirect are inside
  \<^verbatim>\<open>if (apiResult)\<close>; \<^verbatim>\<open>setShowToast(false)\<close> is outside it.
\<close>

definition handleToastConfirm :: "modal \<Rightarrow> modal \<times> effect list" where
  "handleToastConfirm s =
    (s\<lparr>showToast := False\<rparr>,
     if truthy (apiResult s) then
       [SetItem ''valorantCareer'' (JSON_stringify (apiResult s)), Navigate ''/career'']
     else [])"

text \<open>
  \<^verbatim>\<open>handleSubmit\<close> is asynchronous. Its first part runs to the \<^verbatim>\<open>await fetch\<close>: it
  reads no state cell but the four field values of the render it was created in, and it
  tests nothing.
\<close>

definition handleSubmit_begin :: "modal \<Rightarrow> modal \<times> effect list" where
  "handleSubmit_begin s =
    (s\<lparr>loading := True, error := None, apiResult := JNull\<rparr>,
     [SubmitPreventDefault,
      ConsoleLog ''Submitting career creation:'',
      Fetch ''http://127.0.0.1:8080/createCareer'' ''POST''
        [(''Content-Type'', ''application/json'')]
        \<lparr>body_age = Number (age s),
         body_current_rank = rank s,
         body_past_experience = experience s,
         body_division = (if rank s = ''Radiant'' then None else Some (division s))\<rparr>])"

text \<open>
  How the awaited call ends: \<^verbatim>\<open>fetch\<close> rejects, or it resolves to a response with
  its \<^verbatim>\<open>ok\<close> flag and the outcome of \<^verbatim>\<open>res.json()\<close> (\<open>None\<close>: it rejects).
\<close>

datatype response = NetworkError | Reply bool "json option"

definition failed :: "modal \<Rightarrow> modal" where
  "failed s =
    s\<lparr>error := Some ''Failed to create career. Please try again.'', loading := False\<rparr>"

text \<open>
  The rest of \<^verbatim>\<open>handleSubmit\<close>: the \<^verbatim>\<open>try\<close> body after the call, then
  \<^verbatim>\<open>catch\<close> and \<^verbatim>\<open>finally\<close>.
\<close>

fun handleSubmit_resume :: "response \<Rightarrow> modal \<Rightarrow> modal" where
  "handleSubmit_resume NetworkError s = failed s"
| "handleSubmit_resume (Reply ok data) s =
    (if \<not> ok then failed s
     else case data of
       None \<Rightarrow> failed s
     | Some d \<Rightarrow> s\<lparr>apiResult := d, submitted := True, showToast := True, loading := False\<rparr>)"

subsection \<open>The rendered view\<close>

text \<open>
  The controls of the form with the attributes that decide what the browser lets the user
  do. The division select exists only under \<^verbatim>\<open>rank && rank !== 'Radiant'\<close>.
\<close>

record form_view =
  ageValue :: string
  rankValue :: string
  divisionSelect :: "string option"
  experienceValue :: string
  experienceDisabled :: bool
  submitDisabled :: bool

datatype content = CareerCreated json | ErrorText string | Creating | Form form_view

record modal_view =
  toast :: "json option"
  body :: content

text \<open>\<^verbatim>\<open>rankOptions.indexOf(rank) < 7 && rank\<close>, as a condition.\<close>

definition experienceForced :: "modal \<Rightarrow> bool" where
  "experienceForced s \<longleftrightarrow> indexOf rankOptions (rank s) < 7 \<and> rank s \<noteq> []"

definition renderForm :: "modal \<Rightarrow> form_view" where
  "renderForm s =
    \<lparr>ageValue = age s,
     rankValue = rank s,
     divisionSelect =
       (if rank s \<noteq> [] \<and> rank s \<noteq> ''Radiant'' then Some (division s) else None),
     experienceValue = (if experienceForced s then ''None'' else experience s),
     experienceDisabled = experienceForced s,
     submitDisabled = (rank s \<noteq> [] \<and> rank s \<noteq> ''Radiant'' \<and> division s = [])\<rparr>"

text \<open>\<^verbatim>\<open>error || 'Unknown error.'\<close>\<close>

definition errorText :: "string option \<Rightarrow> string" where
  "errorText e =
    (case e of None \<Rightarrow> ''Unknown error.''
     | Some m \<Rightarrow> if m = [] then ''Unknown error.'' else m)"

text \<open>
  The component function: nothing when \<^verbatim>\<open>show\<close> is false, else the toast overlay
  (under \<^verbatim>\<open>showToast && apiResult\<close>) and the chain of conditionals choosing the body.
\<close>

definition render :: "bool \<Rightarrow> modal \<Rightarrow> modal_view option" where
  "render sh s =
    (if \<not> sh then None
     else Some
       \<lparr>toast = (if showToast s \<and> truthy (apiResult s) then Some (apiResult s) else None),
        body =
          (if submitted s \<and> truthy (apiResult s) \<and> \<not> showToast s then
             CareerCreated (apiResult s)
           else if submitted s \<and> \<not> truthy (apiResult s) \<and> \<not> loading s then
             ErrorText (errorText (error s))
           else if loading s then Creating
           else Form (renderForm s))\<rparr>)"

subsection \<open>Events on the rendered view\<close>

text \<open>
  A handler runs only when the browser dispatches an event to the control it is bound to,
  and it can do so only for a control that is in the rendered view and is not disabled.
  The functions of this subsection take the state the view was rendered from, test the
  view, and give what the handler behind the control then does. The toast is an overlay:
  the form under it is still in the view, and still within reach of the keyboard.
\<close>

datatype rejection = NotRendered | Disabled | NoSuchOption | ValueMissing

definition formOf :: "bool \<Rightarrow> modal \<Rightarrow> form_view option" where
  "formOf sh s =
    (case render sh s of
       None \<Rightarrow> None
     | Some v \<Rightarrow> (case body v of Form f \<Rightarrow> Some f | _ \<Rightarrow> None))"

text \<open>The four \<^verbatim>\<open>onChange\<close> handlers.\<close>

definition onAgeChange :: "string \<Rightarrow> modal \<Rightarrow> modal" where
  "onAgeChange v s = s\<lparr>age := v\<rparr>"

definition onRankChange :: "string \<Rightarrow> modal \<Rightarrow> modal" where
  "onRankChange v s = s\<lparr>rank := v, division := []\<rparr>"

definition onDivisionChange :: "string \<Rightarrow> modal \<Rightarrow> modal" where
  "onDivisionChange v s = s\<lparr>division := v\<rparr>"

definition onExperienceChange :: "string \<Rightarrow> modal \<Rightarrow> modal" where
  "onExperienceChange v s = s\<lparr>experience := v\<rparr>"

text \<open>Each of them behind its control.\<close>

definition changeAge :: "bool \<Rightarrow> string \<Rightarrow> modal \<Rightarrow> rejection + modal \<times> effect list" where
  "changeAge sh v s =
    (case formOf sh s of
       None \<Rightarrow> Inl NotRendered
     | Some f \<Rightarrow> Inr (onAgeChange v s, []))"

definition changeRank :: "bool \<Rightarrow> string \<Rightarrow> modal \<Rightarrow> rejection + modal \<times> effect list" where
  "changeRank sh v s =
    (case formOf sh s of
       None \<Rightarrow> Inl NotRendered
     | Some f \<Rightarrow>
         if v \<in> set rankOptions then Inr (onRankChange v s, [])
         else Inl NoSuchOption)"

definition changeDivision :: "bool \<Rightarrow> string \<Rightarrow> modal \<Rightarrow> rejection + modal \<times> effect list" where
  "changeDivision sh v s =
    (case formOf sh s of
       None \<Rightarrow> Inl NotRendered
     | Some f \<Rightarrow>
         (case divisionSelect f of
            None \<Rightarrow> Inl NotRendered
          | Some d \<Rightarrow>
              if v \<in> set divisionOptions then Inr (onDivisionChange v s, [])
              else Inl NoSuchOption))"

definition changeExperience :: "bool \<Rightarrow> string \<Rightarrow> modal \<Rightarrow> rejection + modal \<times> effect list" where
  "changeExperience sh v s =
    (case formOf sh s of
       None \<Rightarrow> Inl NotRendered
     | Some f \<Rightarrow>
         if experienceDisabled f then Inl Disabled
         else if v \<in> set experienceOptions then Inr (onExperienceChange v s, [])
         else Inl NoSuchOption)"

text \<open>
  A \<^verbatim>\<open>required\<close> control that is rendered and enabled blocks the submission while its
  value is empty; a disabled control is exempt. The \<^verbatim>\<open>min\<close>, \<^verbatim>\<open>max\<close> and step
  constraints of the age input are not interpreted here: they can only block more
  submissions.
\<close>

definition valueMissing :: "form_view \<Rightarrow> bool" where
  "valueMissing f =
    (if ageValue f = [] then True
     else if rankValue f = [] then True
     else if divisionSelect f = Some [] then True
     else if experienceDisabled f then False
     else experienceValue f = [])"

text \<open>
  A submission of the form: the \<^verbatim>\<open>onSubmit={handleSubmit}\<close> of the form element,
  reached through the submit button with its \<^verbatim>\<open>disabled\<close> attribute and the
  browser's validation of the required controls.
\<close>

definition submit :: "bool \<Rightarrow> modal \<Rightarrow> rejection + modal \<times> effect list" where
  "submit sh s =
    (case formOf sh s of
       None \<Rightarrow> Inl NotRendered
     | Some f \<Rightarrow>
         if submitDisabled f then Inl Disabled
         else if valueMissing f then Inl ValueMissing
         else Inr (handleSubmit_begin s))"

text \<open>A click on the OK button of the toast: \<^verbatim>\<open>onClick={handleToastConfirm}\<close>.\<close>

definition confirmToast :: "bool \<Rightarrow> modal \<Rightarrow> rejection + modal \<times> effect list" where
  "confirmToast sh s =
    (case render sh s of
       None \<Rightarrow> Inl NotRendered
     | Some v \<Rightarrow>
         (case toast v of
            None \<Rightarrow> Inl NotRendered
          | Some r \<Rightarrow> Inr (handleToastConfirm s)))"

subsection \<open>A mounted form over a sequence of events\<close>

text \<open>
  The component together with what surrounds it: the \<^verbatim>\<open>show\<close> prop; the state of the
  last render, which is what the view on screen and the closures of its handlers were
  made from; the state cells, with every update made since applied; the number of
  \<^verbatim>\<open>handleSubmit\<close> calls suspended at their \<^verbatim>\<open>await\<close>; and everything the handlers
  have done so far, in order.
\<close>

record session =
  shown :: bool
  rendered :: modal
  ui :: modal
  pending :: nat
  trace :: "effect list"

datatype event =
    AgeInput string
  | RankChange string
  | DivisionChange string
  | ExperienceChange string
  | Submit
  | ToastOk
  | Settle response
  | Show bool
  | Render

text \<open>
  One event, with no render after it. The view that lets the event through, and the
  values the handler reads, are those of the last render; what the handler writes goes to
  the cells. None of the handlers tests a cell, so a second event in the same task meets
  the same view and the same handler as the first, whatever the first has written.
  A reply is delivered to a suspended call only. \<open>Render\<close> is React rendering the
  component again from the cells; a change of the prop renders it too.
\<close>

fun step :: "session \<Rightarrow> event \<Rightarrow> session" where
  "step ss (AgeInput v) =
    (case changeAge (shown ss) v (rendered ss) of
       Inl e \<Rightarrow> ss
     | Inr p \<Rightarrow> ss\<lparr>ui := onAgeChange v (ui ss), trace := trace ss @ snd p\<rparr>)"
| "step ss (RankChange v) =
    (case changeRank (shown ss) v (rendered ss) of
       Inl e \<Rightarrow> ss
     | Inr p \<Rightarrow> ss\<lparr>ui := onRankChange v (ui ss), trace := trace ss @ snd p\<rparr>)"
| "step ss (DivisionChange v) =
    (case changeDivision (shown ss) v (rendered ss) of
       Inl e \<Rightarrow> ss
     | Inr p \<Rightarrow> ss\<lparr>ui := onDivisionChange v (ui ss), trace := trace ss @ snd p\<rparr>)"
| "step ss (ExperienceChange v) =
    (case changeExperience (shown ss) v (rendered ss) of
       Inl e \<Rightarrow> ss
     | Inr p \<Rightarrow> ss\<lparr>ui := onExperienceChange v (ui ss), trace := trace ss @ snd p\<rparr>)"
| "step ss Submit =
    (case submit (shown ss) (rendered ss) of
       Inl e \<Rightarrow> ss
     | Inr p \<Rightarrow>
         ss\<lparr>ui := fst (handleSubmit_begin (ui ss)), pending := Suc (pending ss),
            trace := trace ss @ snd p\<rparr>)"
| "step ss ToastOk =
    (case confirmToast (shown ss) (rendered ss) of
       Inl e \<Rightarrow> ss
     | Inr p \<Rightarrow> ss\<lparr>ui := fst (handleToastConfirm (ui ss)), trace := trace ss @ snd p\<rparr>)"
| "step ss (Settle r) =
    (if pending ss = 0 then ss
     else ss\<lparr>ui := handleSubmit_resume r (ui ss), pending := pending ss - 1\<rparr>)"
| "step ss (Show b) = ss\<lparr>shown := b, rendered := ui ss\<rparr>"
| "step ss Render = ss\<lparr>rendered := ui ss\<rparr>"

definition opened :: session where
  "opened = \<lparr>shown = True, rendered = initial, ui = initial, pending = 0, trace = []\<rparr>"

text \<open>
  Any sequence of events, the renders among them. Events after a navigation are not
  excluded, although the page is gone by then: the sequences considered are a superset of
  those a browser can produce.
\<close>

definition steps :: "event list \<Rightarrow> session" where
  "steps evs = foldl step opened evs"

text \<open>
  The sequences in which every event is in a task of its own and the component is
  rendered again before the next, as it is between two events of a user.
\<close>

definition task :: "session \<Rightarrow> event \<Rightarrow> session" where
  "task ss ev = step (step ss ev) Render"

definition run :: "event list \<Rightarrow> session" where
  "run evs = foldl task opened evs"

text \<open>The \<^verbatim>\<open>fetch\<close> calls among the effects.\<close>

fun isFetch :: "effect \<Rightarrow> bool" where
  "isFetch (Fetch url m hs b) = True"
| "isFetch e = False"

definition fetches :: "effect list \<Rightarrow> effect list" where
  "fetches fx = filter isFetch fx"

section \<open>Invariants\<close>

text \<open>What holds of the stepper once the effect of the last event has run.\<close>

definition settled :: "landing \<Rightarrow> bool" where
  "settled s \<longleftrightarrow>
    0 \<le> activeIdx s \<and> activeIdx s \<le> int (length milestones) - 1 \<and>
    canStart s = (activeIdx s = int (length milestones) - 1)"

text \<open>
  What holds of a mounted form that is rendered after every event: the view is that of the
  cells, and a \<^verbatim>\<open>handleSubmit\<close> call is suspended exactly while \<^verbatim>\<open>loading\<close> is true,
  and then it is the only one.
\<close>

definition in_flight :: "session \<Rightarrow> bool" where
  "in_flight ss \<longleftrightarrow>
    rendered ss = ui ss \<and> pending ss = (if loading (ui ss) then 1 else 0)"

section \<open>Properties of the stepper\<close>

lemma length_milestones: "int (length milestones) = 6"
  by (simp add: milestones_def)

lemma nextIdx_range:
  "0 \<le> i \<Longrightarrow> i \<le> int (length milestones) - 1 \<Longrightarrow>
   0 \<le> nextIdx d i \<and> nextIdx d i \<le> int (length milestones) - 1"
  by (simp add: nextIdx_def length_milestones)

lemma settled_mounted: "settled mounted"
  by (simp add: settled_def mounted_def canStartEffect_def length_milestones)

lemma settled_wheel: "settled s \<Longrightarrow> settled (wheel s ev)"
  using nextIdx_range [of "activeIdx s" "snd ev"]
  by (auto simp: settled_def wheel_def committed_def handleWheel_def canStartEffect_def Let_def)

lemma settled_foldl: "settled s \<Longrightarrow> settled (foldl wheel s evs)"
  by (induction evs arbitrary: s) (simp_all add: settled_wheel)

lemma settled_wheels: "settled (wheels evs)"
  unfolding wheels_def by (rule settled_foldl [OF settled_mounted])

text \<open>
  C7. Over every finite sequence of wheel events from the mounted component (index 0),
  \<open>activeIdx\<close> stays between 0 and the index of the last milestone. An accepted
  forward event at the last index, and an accepted event that is not forward (every
  negative \<^verbatim>\<open>deltaY\<close> is one) at index 0, only record the time and leave the index where
  it is.
\<close>

theorem activeIdx_in_range:
  "0 \<le> activeIdx (wheels evs) \<and> activeIdx (wheels evs) \<le> int (length milestones) - 1 \<and>
   (activeIdx s = int (length milestones) - 1 \<and>
    SCROLL_THROTTLE_MS \<le> now - lastScroll s \<and> gt_zero d \<longrightarrow>
      fst (handleWheel now d s) = s\<lparr>lastScroll := now\<rparr> \<and>
      activeIdx (wheel s (now, d)) = int (length milestones) - 1) \<and>
   (activeIdx s' = 0 \<and>
    SCROLL_THROTTLE_MS \<le> now' - lastScroll s' \<and> \<not> gt_zero d' \<longrightarrow>
      fst (handleWheel now' d' s') = s'\<lparr>lastScroll := now'\<rparr> \<and>
      activeIdx (wheel s' (now', d')) = 0)"
proof -
  have range:
    "0 \<le> activeIdx (wheels evs) \<and> activeIdx (wheels evs) \<le> int (length milestones) - 1"
    using settled_wheels [of evs] by (simp add: settled_def)
  have top:
    "activeIdx s = int (length milestones) - 1 \<and>
     SCROLL_THROTTLE_MS \<le> now - lastScroll s \<and> gt_zero d \<longrightarrow>
       fst (handleWheel now d s) = s\<lparr>lastScroll := now\<rparr> \<and>
       activeIdx (wheel s (now, d)) = int (length milestones) - 1"
    by (simp add: handleWheel_def nextIdx_def wheel_def committed_def)
  have bottom:
    "activeIdx s' = 0 \<and>
     SCROLL_THROTTLE_MS \<le> now' - lastScroll s' \<and> \<not> gt_zero d' \<longrightarrow>
       fst (handleWheel now' d' s') = s'\<lparr>lastScroll := now'\<rparr> \<and>
       activeIdx (wheel s' (now', d')) = 0"
    by (simp add: handleWheel_def nextIdx_def wheel_def committed_def)
  from range top bottom show ?thesis by blast
qed

theorem activeIdx_in_range_witness:
  "(activeIdx \<lparr>activeIdx = 5, lastScroll = 1000, canStart = True\<rparr> = int (length milestones) - 1 \<and>
    SCROLL_THROTTLE_MS \<le> 2000 - lastScroll \<lparr>activeIdx = 5, lastScroll = 1000, canStart = True\<rparr> \<and>
    gt_zero (Finite 120)) \<and>
   activeIdx (wheel \<lparr>activeIdx = 5, lastScroll = 1000, canStart = True\<rparr> (2000, Finite 120)) = 5 \<and>
   (activeIdx \<lparr>activeIdx = 0, lastScroll = 1000, canStart = False\<rparr> = 0 \<and>
    SCROLL_THROTTLE_MS \<le> 2000 - lastScroll \<lparr>activeIdx = 0, lastScroll = 1000, canStart = False\<rparr> \<and>
    \<not> gt_zero (Finite (- 120))) \<and>
   activeIdx (wheel \<lparr>activeIdx = 0, lastScroll = 1000, canStart = False\<rparr> (2000, Finite (- 120))) = 0 \<and>
   activeIdx (wheels [(1000, Finite 120), (2000, Finite (- 120)), (3000, Finite (- 120))]) \<le> 5"
  using activeIdx_in_range
    [of "[(1000, Finite 120), (2000, Finite (- 120)), (3000, Finite (- 120))]"
        "\<lparr>activeIdx = 5, lastScroll = 1000, canStart = True\<rparr>" 2000 "Finite 120"
        "\<lparr>activeIdx = 0, lastScroll = 1000, canStart = False\<rparr>" 2000 "Finite (- 120)"]
  by (simp add: length_milestones SCROLL_THROTTLE_MS_def)

text \<open>
  C8, as the code has it. \<^verbatim>\<open>canStart\<close> is a cell of its own, written by an effect
  that runs after the render. In every state the stepper settles in after a sequence of
  wheel events the flag is true exactly when \<open>activeIdx\<close> is the index of the last
  milestone; in the render the handler commits before that, the flag is still what it was
  before the event.
\<close>

theorem canStart_iff_last:
  "canStart (wheels evs) = (activeIdx (wheels evs) = int (length milestones) - 1) \<and>
   canStart (committed s ev) = canStart s"
proof -
  have "canStart (wheels evs) = (activeIdx (wheels evs) = int (length milestones) - 1)"
    using settled_wheels [of evs] by (simp add: settled_def)
  moreover have "canStart (committed s ev) = canStart s"
    by (simp add: committed_def handleWheel_def)
  ultimately show ?thesis by simp
qed

text \<open>
  C8, as the claim has it, fails in the render between handler and effect: the fifth
  forward step is rendered with index 5 and the flag still false, and the step back that
  follows with index 4 and the flag still true.
\<close>

theorem canStart_stale_between:
  "\<lparr>activeIdx = 5, lastScroll = 5000, canStart = False\<rparr> \<in>
     set (renders mounted [(1000, Finite 120), (2000, Finite 120), (3000, Finite 120),
       (4000, Finite 120), (5000, Finite 120)]) \<and>
   \<lparr>activeIdx = 4, lastScroll = 6000, canStart = True\<rparr> \<in>
     set (renders mounted [(1000, Finite 120), (2000, Finite 120), (3000, Finite 120),
       (4000, Finite 120), (5000, Finite 120), (6000, Finite (- 120))])"
  by (simp add: wheel_def committed_def handleWheel_def mounted_def canStartEffect_def
      nextIdx_def SCROLL_THROTTLE_MS_def length_milestones)

text \<open>
  C3, as the code has it. A wheel event that arrives less than 250 ms after the last
  accepted one leaves the stepper state unchanged, and the handler returns before it
  touches the page or the event: the scroll offset is not reset and
  \<^verbatim>\<open>preventDefault\<close> is not called, unlike for an accepted event.
\<close>

theorem throttled_wheel_untouched:
  "now - lastScroll s < SCROLL_THROTTLE_MS \<Longrightarrow>
   handleWheel now d s = (s, []) \<and> wheel s (now, d) = s"
  by (simp add: handleWheel_def wheel_def committed_def)

theorem throttled_wheel_untouched_witness:
  "1100 - lastScroll \<lparr>activeIdx = 1, lastScroll = 1000, canStart = False\<rparr> < SCROLL_THROTTLE_MS \<and>
   handleWheel 1100 (Finite 120) \<lparr>activeIdx = 1, lastScroll = 1000, canStart = False\<rparr> =
     (\<lparr>activeIdx = 1, lastScroll = 1000, canStart = False\<rparr>, [])"
  using throttled_wheel_untouched
    [of 1100 "\<lparr>activeIdx = 1, lastScroll = 1000, canStart = False\<rparr>" "Finite 120"]
  by (simp add: SCROLL_THROTTLE_MS_def)

text \<open>
  C3, as the claim has it, fails: 100 ms after an accepted event the handler performs
  nothing, where the same event 300 ms after it resets the scroll offset and marks the
  event handled.
\<close>

theorem throttled_wheel_not_consumed:
  "1100 - lastScroll \<lparr>activeIdx = 1, lastScroll = 1000, canStart = False\<rparr> < SCROLL_THROTTLE_MS \<and>
   PreventDefault \<notin> set (snd (handleWheel 1100 (Finite 120)
     \<lparr>activeIdx = 1, lastScroll = 1000, canStart = False\<rparr>)) \<and>
   ScrollToTop \<notin> set (snd (handleWheel 1100 (Finite 120)
     \<lparr>activeIdx = 1, lastScroll = 1000, canStart = False\<rparr>)) \<and>
   snd (handleWheel 1300 (Finite 120) \<lparr>activeIdx = 1, lastScroll = 1000, canStart = False\<rparr>) =
     [ScrollToTop, PreventDefault, BodyOverflowHidden]"
  by (simp add: handleWheel_def SCROLL_THROTTLE_MS_def)

text \<open>
  C4 fails on the code: the updater has two branches only, so a \<^verbatim>\<open>deltaY\<close> that is not
  greater than zero is a step back. After three forward steps the index is 3; an accepted
  event with \<^verbatim>\<open>deltaY\<close> 0 (a horizontal wheel gesture), or with \<^verbatim>\<open>NaN\<close>, moves it to 2.
\<close>

theorem zero_delta_steps_back:
  "activeIdx (wheels [(1000, Finite 120), (2000, Finite 120), (3000, Finite 120)]) = 3 \<and>
   activeIdx (wheels [(1000, Finite 120), (2000, Finite 120), (3000, Finite 120),
     (4000, Finite 0)]) = 2 \<and>
   activeIdx (wheels [(1000, Finite 120), (2000, Finite 120), (3000, Finite 120),
     (4000, NaN)]) = 2"
  by (simp add: wheels_def wheel_def committed_def handleWheel_def mounted_def canStartEffect_def
      nextIdx_def SCROLL_THROTTLE_MS_def length_milestones)

section \<open>Properties of the intake form\<close>

subsection \<open>The form is rendered only while nothing is loading\<close>

lemma formOf_Some: "formOf sh s = Some f \<Longrightarrow> sh \<and> \<not> loading s \<and> f = renderForm s"
  by (auto simp: formOf_def render_def split: if_splits)

lemma formOf_loading: "loading s \<Longrightarrow> formOf sh s = None"
  by (cases "formOf sh s") (auto dest: formOf_Some)

lemma submit_loading: "loading s \<Longrightarrow> submit sh s = Inl NotRendered"
  by (simp add: submit_def formOf_loading)

lemma submit_Inr: "submit sh s = Inr p \<Longrightarrow> p = handleSubmit_begin s"
  by (auto simp: submit_def split: option.splits if_splits)

lemma submit_Inr_idle: "submit sh s = Inr p \<Longrightarrow> \<not> loading s"
  by (auto simp: submit_loading)

lemma loading_failed: "loading (failed s) = False"
  by (simp add: failed_def)

lemma loading_resume: "loading (handleSubmit_resume r s) = False"
  by (cases r) (simp_all add: loading_failed split: option.splits)

lemma loading_begin: "loading (fst (handleSubmit_begin s)) = True"
  by (simp add: handleSubmit_begin_def)

lemma fetches_begin: "length (fetches (snd (handleSubmit_begin s))) = 1"
  by (simp add: handleSubmit_begin_def fetches_def)

subsection \<open>One suspended call at most, when every event is followed by a render\<close>

lemma in_flight_opened: "in_flight opened"
  by (simp add: in_flight_def opened_def initial_def)

lemma in_flight_task: "in_flight ss \<Longrightarrow> in_flight (task ss ev)"
proof (cases ev)
  case (AgeInput v)
  assume "in_flight ss"
  with AgeInput show ?thesis
    by (auto simp: task_def in_flight_def changeAge_def onAgeChange_def split: option.splits)
next
  case (RankChange v)
  assume "in_flight ss"
  with RankChange show ?thesis
    by (auto simp: task_def in_flight_def changeRank_def onRankChange_def
        split: option.splits if_splits)
next
  case (DivisionChange v)
  assume "in_flight ss"
  with DivisionChange show ?thesis
    by (auto simp: task_def in_flight_def changeDivision_def onDivisionChange_def
        split: option.splits if_splits)
next
  case (ExperienceChange v)
  assume "in_flight ss"
  with ExperienceChange show ?thesis
    by (auto simp: task_def in_flight_def changeExperience_def onExperienceChange_def
        split: option.splits if_splits)
next
  case Submit
  assume inv: "in_flight ss"
  show ?thesis
  proof (cases "submit (shown ss) (rendered ss)")
    case (Inl e)
    with inv Submit show ?thesis by (simp add: task_def in_flight_def)
  next
    case (Inr p)
    then have "\<not> loading (rendered ss)" by (rule submit_Inr_idle)
    with inv have "pending ss = 0" by (simp add: in_flight_def)
    with Inr Submit show ?thesis by (simp add: task_def in_flight_def loading_begin)
  qed
next
  case ToastOk
  assume "in_flight ss"
  with ToastOk show ?thesis
    by (auto simp: task_def in_flight_def confirmToast_def handleToastConfirm_def
        split: option.splits if_splits)
next
  case (Settle r)
  assume "in_flight ss"
  with Settle show ?thesis
    by (auto simp: task_def in_flight_def loading_resume split: if_splits)
next
  case (Show b)
  assume "in_flight ss"
  with Show show ?thesis by (simp add: task_def in_flight_def)
next
  case Render
  assume "in_flight ss"
  with Render show ?thesis by (simp add: task_def in_flight_def)
qed

lemma in_flight_foldl: "in_flight ss \<Longrightarrow> in_flight (foldl task ss evs)"
  by (induction evs arbitrary: ss) (simp_all add: in_flight_task)

lemma in_flight_run: "in_flight (run evs)"
  unfolding run_def by (rule in_flight_foldl [OF in_flight_opened])

lemma empty_not_rank: "x \<in> set rankOptions \<Longrightarrow> x \<noteq> []"
  by (auto simp: rankOptions_def)

subsection \<open>Submission\<close>

text \<open>
  C1, as the code has it. \<^verbatim>\<open>handleSubmit\<close> tests nothing; what keeps a second
  submission out is the view. Once the component has been rendered with \<^verbatim>\<open>loading\<close>
  true, the form is not in the view: a submission is refused on the spot and nothing is
  sent. When a submission is accepted and the component is rendered again, \<^verbatim>\<open>loading\<close>
  is true in that render, a second submission changes nothing, and the two together have
  added exactly one \<^verbatim>\<open>fetch\<close> call. Over every sequence of events that are each
  followed by a render, at most one call is ever suspended.
\<close>

theorem submit_refused_once_rendered:
  "(loading (rendered ss) \<longrightarrow>
      submit (shown ss) (rendered ss) = Inl NotRendered \<and> step ss Submit = ss) \<and>
   (submit (shown ss) (rendered ss) = Inr p \<longrightarrow>
      loading (rendered (task ss Submit)) \<and>
      step (task ss Submit) Submit = task ss Submit \<and>
      length (fetches (trace (step (task ss Submit) Submit))) =
        length (fetches (trace ss)) + 1) \<and>
   pending (run evs) \<le> 1"
proof -
  have refused: "loading (rendered ss) \<longrightarrow>
      submit (shown ss) (rendered ss) = Inl NotRendered \<and> step ss Submit = ss"
    by (simp add: submit_loading)
  have twice: "submit (shown ss) (rendered ss) = Inr p \<longrightarrow>
      loading (rendered (task ss Submit)) \<and>
      step (task ss Submit) Submit = task ss Submit \<and>
      length (fetches (trace (step (task ss Submit) Submit))) =
        length (fetches (trace ss)) + 1"
  proof
    assume accepted: "submit (shown ss) (rendered ss) = Inr p"
    then have p: "p = handleSubmit_begin (rendered ss)" by (rule submit_Inr)
    from accepted have busy: "loading (rendered (task ss Submit))"
      by (simp add: task_def loading_begin)
    from busy have again: "step (task ss Submit) Submit = task ss Submit"
      by (simp add: submit_loading)
    from accepted have "fetches (trace (task ss Submit)) = fetches (trace ss) @ fetches (snd p)"
      by (simp add: task_def fetches_def)
    then have "length (fetches (trace (task ss Submit))) = length (fetches (trace ss)) + 1"
      by (simp add: p fetches_begin)
    with busy again show "loading (rendered (task ss Submit)) \<and>
      step (task ss Submit) Submit = task ss Submit \<and>
      length (fetches (trace (step (task ss Submit) Submit))) =
        length (fetches (trace ss)) + 1"
      by simp
  qed
  have one: "pending (run evs) \<le> 1"
    using in_flight_run [of evs] by (simp add: in_flight_def split: if_splits)
  from refused twice one show ?thesis by blast
qed

theorem submit_refused_once_rendered_witness:
  "loading (rendered (run [AgeInput ''20'', RankChange ''Radiant'', ExperienceChange ''None'',
     Submit])) \<and>
   step (run [AgeInput ''20'', RankChange ''Radiant'', ExperienceChange ''None'', Submit]) Submit =
     run [AgeInput ''20'', RankChange ''Radiant'', ExperienceChange ''None'', Submit] \<and>
   submit (shown (run [AgeInput ''20'', RankChange ''Radiant'', ExperienceChange ''None'']))
     (rendered (run [AgeInput ''20'', RankChange ''Radiant'', ExperienceChange ''None''])) =
     Inr (handleSubmit_begin
       (rendered (run [AgeInput ''20'', RankChange ''Radiant'', ExperienceChange ''None'']))) \<and>
   length (fetches (trace (step (task
     (run [AgeInput ''20'', RankChange ''Radiant'', ExperienceChange ''None'']) Submit) Submit))) =
     length (fetches (trace (run [AgeInput ''20'', RankChange ''Radiant'', ExperienceChange ''None'']))) + 1"
proof -
  have busy: "loading (rendered (run [AgeInput ''20'', RankChange ''Radiant'',
      ExperienceChange ''None'', Submit]))"
    by code_simp
  have accepted:
    "submit (shown (run [AgeInput ''20'', RankChange ''Radiant'', ExperienceChange ''None'']))
       (rendered (run [AgeInput ''20'', RankChange ''Radiant'', ExperienceChange ''None''])) =
     Inr (handleSubmit_begin
       (rendered (run [AgeInput ''20'', RankChange ''Radiant'', ExperienceChange ''None''])))"
    by code_simp
  note first = submit_refused_once_rendered
      [of "run [AgeInput ''20'', RankChange ''Radiant'', ExperienceChange ''None'', Submit]"
          "handleSubmit_begin initial" "[]"]
  note second = submit_refused_once_rendered
      [of "run [AgeInput ''20'', RankChange ''Radiant'', ExperienceChange ''None'']"
          "handleSubmit_begin
            (rendered (run [AgeInput ''20'', RankChange ''Radiant'', ExperienceChange ''None'']))"
          "[]"]
  from first second busy accepted show ?thesis by blast
qed

text \<open>
  C1, as the claim has it, fails when the second submission comes before the component is
  rendered again. After the first, \<^verbatim>\<open>loading\<close> is true in the cell and one call is
  suspended; the view is still the form and the handler has no test of its own, so the
  second submission sends a second request.
\<close>

theorem submit_twice_before_render:
  "loading (ui (steps [AgeInput ''20'', Render, RankChange ''Radiant'', Render,
     ExperienceChange ''None'', Render, Submit])) \<and>
   pending (steps [AgeInput ''20'', Render, RankChange ''Radiant'', Render,
     ExperienceChange ''None'', Render, Submit]) = 1 \<and>
   length (fetches (trace (steps [AgeInput ''20'', Render, RankChange ''Radiant'', Render,
     ExperienceChange ''None'', Render, Submit, Submit]))) = 2 \<and>
   pending (steps [AgeInput ''20'', Render, RankChange ''Radiant'', Render,
     ExperienceChange ''None'', Render, Submit, Submit]) = 2"
  by code_simp

text \<open>
  C5, as the code has it. When the form was rendered with a rank of the list other than
  the top one and an empty division, a submission is refused before \<^verbatim>\<open>handleSubmit\<close>
  runs, and silently: the submit button of that form is disabled (and there is no form at
  all when another body is shown). No cell is written, the \<^verbatim>\<open>error\<close> cell included,
  and nothing is sent.
\<close>

theorem submit_without_division_refused:
  "rank (rendered ss) \<in> set rankOptions \<Longrightarrow> rank (rendered ss) \<noteq> ''Radiant'' \<Longrightarrow>
   division (rendered ss) = [] \<Longrightarrow>
   submit (shown ss) (rendered ss) =
     Inl (if formOf (shown ss) (rendered ss) = None then NotRendered else Disabled) \<and>
   submitDisabled (renderForm (rendered ss)) \<and>
   step ss Submit = ss"
proof -
  assume r: "rank (rendered ss) \<in> set rankOptions" and nr: "rank (rendered ss) \<noteq> ''Radiant''"
    and d: "division (rendered ss) = []"
  from r have ne: "rank (rendered ss) \<noteq> []" by (rule empty_not_rank)
  from ne nr d have off: "submitDisabled (renderForm (rendered ss))"
    by (simp add: renderForm_def)
  have "submit (shown ss) (rendered ss) =
     Inl (if formOf (shown ss) (rendered ss) = None then NotRendered else Disabled)"
  proof (cases "formOf (shown ss) (rendered ss)")
    case None
    then show ?thesis by (simp add: submit_def)
  next
    case (Some f)
    then have "f = renderForm (rendered ss)" by (auto dest: formOf_Some)
    with off Some show ?thesis by (simp add: submit_def)
  qed
  with off show ?thesis by simp
qed

theorem submit_without_division_refused_witness:
  "rank (rendered (run [AgeInput ''20'', RankChange ''Gold''])) \<in> set rankOptions \<and>
   rank (rendered (run [AgeInput ''20'', RankChange ''Gold''])) \<noteq> ''Radiant'' \<and>
   division (rendered (run [AgeInput ''20'', RankChange ''Gold''])) = [] \<and>
   submit (shown (run [AgeInput ''20'', RankChange ''Gold'']))
     (rendered (run [AgeInput ''20'', RankChange ''Gold''])) = Inl Disabled \<and>
   trace (step (run [AgeInput ''20'', RankChange ''Gold'']) Submit) = []"
proof -
  have state: "run [AgeInput ''20'', RankChange ''Gold''] =
    \<lparr>shown = True, rendered = initial\<lparr>age := ''20'', rank := ''Gold''\<rparr>,
     ui = initial\<lparr>age := ''20'', rank := ''Gold''\<rparr>, pending = 0, trace = []\<rparr>"
    by code_simp
  have form: "formOf True (initial\<lparr>age := ''20'', rank := ''Gold''\<rparr>) \<noteq> None"
    by code_simp
  have opts: "''Gold'' \<in> set rankOptions"
    by (simp add: rankOptions_def)
  from form opts
    submit_without_division_refused [of "run [AgeInput ''20'', RankChange ''Gold'']"]
  show ?thesis by (simp add: state initial_def)
qed

text \<open>
  C5, as the claim has it, fails in its validation error: with rank Gold and no division
  the refusal is that of the disabled button, not of the validation; the \<^verbatim>\<open>error\<close>
  cell stays empty and the view stays the plain form, with no message.
\<close>

theorem submit_without_division_no_error:
  "submit True (rendered (run [AgeInput ''20'', RankChange ''Gold''])) = Inl Disabled \<and>
   submit True (rendered (run [AgeInput ''20'', RankChange ''Gold''])) \<noteq> Inl ValueMissing \<and>
   error (ui (task (run [AgeInput ''20'', RankChange ''Gold'']) Submit)) = None \<and>
   render True (rendered (task (run [AgeInput ''20'', RankChange ''Gold'']) Submit)) =
     Some \<lparr>toast = None,
       body = Form \<lparr>ageValue = ''20'', rankValue = ''Gold'', divisionSelect = Some [],
         experienceValue = ''None'', experienceDisabled = True, submitDisabled = True\<rparr>\<rparr>"
  by code_simp

text \<open>
  C2 fails on the code. The select shows \<^verbatim>\<open>None\<close> and is disabled below Immortal, but the
  \<^verbatim>\<open>experience\<close> cell keeps what was chosen before, and \<^verbatim>\<open>handleSubmit\<close> sends the
  cell. A user picks Immortal and Tier 1, then changes the rank to Gold: the form reads
  \<^verbatim>\<open>None\<close>, a further edit of the field is refused, and the request carries Tier 1.
\<close>

theorem forced_experience_not_sent:
  "map_option experienceValue
     (formOf True (ui (run [RankChange ''Immortal'', ExperienceChange ''Tier 1'',
        RankChange ''Gold'', DivisionChange ''1'', AgeInput ''20'']))) = Some ''None'' \<and>
   changeExperience True ''Tier 2''
     (ui (run [RankChange ''Immortal'', ExperienceChange ''Tier 1'',
        RankChange ''Gold'', DivisionChange ''1'', AgeInput ''20''])) = Inl Disabled \<and>
   fetches (trace (run [RankChange ''Immortal'', ExperienceChange ''Tier 1'',
        RankChange ''Gold'', DivisionChange ''1'', AgeInput ''20'', Submit])) =
     [Fetch ''http://127.0.0.1:8080/createCareer'' ''POST''
       [(''Content-Type'', ''application/json'')]
       \<lparr>body_age = Number ''20'', body_current_rank = ''Gold'',
        body_past_experience = ''Tier 1'', body_division = Some ''1''\<rparr>]"
  by code_simp

subsection \<open>The reply\<close>

text \<open>
  C6 fails on the code. After a reply that is not ok, or a transport error, the
  \<^verbatim>\<open>error\<close> cell holds the message, nothing was stored and nothing navigated, and the
  form is back for another submission. But the only place that shows the message is the
  body chosen under \<^verbatim>\<open>submitted && !apiResult && !loading\<close>, and \<^verbatim>\<open>submitted\<close> is set on
  success only: the view is the plain form, with no message.
\<close>

theorem failure_message_not_shown:
  "error (ui (run [AgeInput ''20'', RankChange ''Gold'', DivisionChange ''1'', Submit,
      Settle (Reply False None)])) = Some ''Failed to create career. Please try again.'' \<and>
   render True (ui (run [AgeInput ''20'', RankChange ''Gold'', DivisionChange ''1'', Submit,
      Settle (Reply False None)])) =
     Some \<lparr>toast = None,
       body = Form \<lparr>ageValue = ''20'', rankValue = ''Gold'', divisionSelect = Some ''1'',
         experienceValue = ''None'', experienceDisabled = True, submitDisabled = False\<rparr>\<rparr> \<and>
   render True (ui (run [AgeInput ''20'', RankChange ''Gold'', DivisionChange ''1'', Submit,
      Settle NetworkError])) =
     Some \<lparr>toast = None,
       body = Form \<lparr>ageValue = ''20'', rankValue = ''Gold'', divisionSelect = Some ''1'',
         experienceValue = ''None'', experienceDisabled = True, submitDisabled = False\<rparr>\<rparr> \<and>
   trace (run [AgeInput ''20'', RankChange ''Gold'', DivisionChange ''1'', Submit,
      Settle (Reply False None)]) =
     snd (handleSubmit_begin (initial\<lparr>age := ''20'', rank := ''Gold'', division := ''1''\<rparr>)) \<and>
   length (fetches (trace (run [AgeInput ''20'', RankChange ''Gold'', DivisionChange ''1'', Submit,
      Settle (Reply False None), Submit]))) = 2"
  by code_simp

subsection \<open>Acknowledgment\<close>

text \<open>
  C9. When the user acknowledges a placement (the result cell holds a truthy value, as it
  does whenever the toast is on screen), \<^verbatim>\<open>handleToastConfirm\<close> does exactly two things
  outside the component, in this order: it writes the serialised result, whole, under the
  key \<^verbatim>\<open>valorantCareer\<close>, once, and then it navigates to \<^verbatim>\<open>/career\<close>, once. The toast
  is then closed, so the acknowledgment cannot be given a second time.
\<close>

theorem acknowledge_writes_then_navigates:
  "truthy (apiResult s) \<Longrightarrow>
   handleToastConfirm s =
     (s\<lparr>showToast := False\<rparr>,
      [SetItem ''valorantCareer'' (JSON_stringify (apiResult s)), Navigate ''/career'']) \<and>
   (showToast s \<longrightarrow> confirmToast True s = Inr (handleToastConfirm s)) \<and>
   confirmToast sh (fst (handleToastConfirm s)) = Inl NotRendered"
  by (simp add: handleToastConfirm_def confirmToast_def render_def)

theorem acknowledge_writes_then_navigates_witness:
  "truthy (apiResult (ui (run [AgeInput ''20'', RankChange ''Gold'', DivisionChange ''1'',
      Submit, Settle (Reply True (Some (JObj [(''starting_tier'', JStr ''Tier 3'')])))]))) \<and>
   showToast (ui (run [AgeInput ''20'', RankChange ''Gold'', DivisionChange ''1'',
      Submit, Settle (Reply True (Some (JObj [(''starting_tier'', JStr ''Tier 3'')])))])) \<and>
   snd (handleToastConfirm (ui (run [AgeInput ''20'', RankChange ''Gold'', DivisionChange ''1'',
      Submit, Settle (Reply True (Some (JObj [(''starting_tier'', JStr ''Tier 3'')])))]))) =
     [SetItem ''valorantCareer'' (JSON_stringify (JObj [(''starting_tier'', JStr ''Tier 3'')])),
      Navigate ''/career'']"
proof -
  have state:
    "apiResult (ui (run [AgeInput ''20'', RankChange ''Gold'', DivisionChange ''1'',
       Submit, Settle (Reply True (Some (JObj [(''starting_tier'', JStr ''Tier 3'')])))])) =
     JObj [(''starting_tier'', JStr ''Tier 3'')]"
    by code_simp
  have shown: "showToast (ui (run [AgeInput ''20'', RankChange ''Gold'', DivisionChange ''1'',
      Submit, Settle (Reply True (Some (JObj [(''starting_tier'', JStr ''Tier 3'')])))]))"
    by code_simp
  have result: "truthy (apiResult (ui (run [AgeInput ''20'', RankChange ''Gold'',
      DivisionChange ''1'', Submit,
      Settle (Reply True (Some (JObj [(''starting_tier'', JStr ''Tier 3'')])))])))"
    by (simp add: state)
  from acknowledge_writes_then_navigates [OF result, of True] state shown result
  show ?thesis by simp
qed

text \<open>
  C10. When \<^verbatim>\<open>handleToastConfirm\<close> runs while the result cell holds no placement
  (\<^verbatim>\<open>null\<close>, or any other falsy value), it writes nothing and does not navigate: it
  only sets \<^verbatim>\<open>showToast\<close> to false.
\<close>

theorem acknowledge_without_result:
  "\<not> truthy (apiResult s) \<Longrightarrow> handleToastConfirm s = (s\<lparr>showToast := False\<rparr>, [])"
  by (simp add: handleToastConfirm_def)

theorem acknowledge_without_result_witness:
  "apiResult (initial\<lparr>showToast := True\<rparr>) = JNull \<and>
   \<not> truthy (apiResult (initial\<lparr>showToast := True\<rparr>)) \<and>
   handleToastConfirm (initial\<lparr>showToast := True\<rparr>) = (initial, [])"
  using acknowledge_without_result [of "initial\<lparr>showToast := True\<rparr>"]
  by (simp add: initial_def)

end
